theory Spec2Isabelle
  imports Main "HOL-Library.Multiset" "HOL-Library.Sublist"
begin

section \<open>The word grid of wordgrid.py\<close>

text \<open>
  A Python \<open>str\<close> is a \<^typ>\<open>string\<close>: a list of characters, one \<^typ>\<open>char\<close> per code point
  (code points below 256). Python integers are \<^typ>\<open>int\<close>. An exception is a value
  \<open>Inl e\<close> of the result type \<open>error + 'a\<close>; a normal return is \<open>Inr v\<close>.
\<close>

datatype error = IndexError | ValueError

subsection \<open>Counter\<close>

text \<open>
  \<open>collections.Counter\<close> is a dictionary from keys to integer counts that remembers the
  order in which keys were first inserted: an association list. \<open>k in m\<close> is
  \<open>counter_contains\<close>, \<open>m[k]\<close> is \<open>counter_get\<close> (a Counter answers 0 for a missing key),
  iterating over \<open>m\<close> walks \<open>counter_keys\<close>.
\<close>

type_synonym 'k counter = "('k \<times> int) list"

fun counter_incr :: "'k \<Rightarrow> 'k counter \<Rightarrow> 'k counter" where
  "counter_incr k [] = [(k, 1)]"
| "counter_incr k ((k', v) # kvs) =
     (if k' = k then (k', v + 1) # kvs else (k', v) # counter_incr k kvs)"

definition Counter :: "'k list \<Rightarrow> 'k counter" where
  "Counter xs = foldl (\<lambda>m x. counter_incr x m) [] xs"

definition counter_keys :: "'k counter \<Rightarrow> 'k list" where
  "counter_keys m = map fst m"

definition counter_contains :: "'k counter \<Rightarrow> 'k \<Rightarrow> bool" where
  "counter_contains m k = (k \<in> set (counter_keys m))"

definition counter_get :: "'k counter \<Rightarrow> 'k \<Rightarrow> int" where
  "counter_get m k = (case map_of m k of None \<Rightarrow> 0 | Some v \<Rightarrow> v)"

subsection \<open>The two checks on a word\<close>

text \<open>
  \<open>check_ngrams_in_word\<close>: the loop over \<open>range(len(word)-n+1)\<close> returns False at the first
  slice \<open>word[i : i+n]\<close> that is not in the set. The bound is computed on integers, and a
  bound that is not positive gives the empty range. \<open>n\<close> is a length, a natural number.
\<close>

fun check_ngrams_loop :: "nat list \<Rightarrow> 'a list \<Rightarrow> 'a list set \<Rightarrow> nat \<Rightarrow> bool" where
  "check_ngrams_loop [] word ngramset n = True"
| "check_ngrams_loop (i # is) word ngramset n =
     (if take n (drop i word) \<notin> ngramset then False
      else check_ngrams_loop is word ngramset n)"

definition check_ngrams_in_word :: "'a list \<Rightarrow> 'a list set \<Rightarrow> nat \<Rightarrow> bool" where
  "check_ngrams_in_word word ngramset n =
     check_ngrams_loop [0 ..< nat (int (length word) - int n + 1)] word ngramset n"

text \<open>
  \<open>check_lettercount_in_word\<close>: iterating over a \<open>str\<close> gives its characters as strings of
  length one, so the keys of \<open>Counter(word)\<close> are one-character strings.
\<close>

fun check_lettercount_loop :: "string list \<Rightarrow> string counter \<Rightarrow> string counter \<Rightarrow> bool" where
  "check_lettercount_loop [] lettercount_word lettercount = True"
| "check_lettercount_loop (letter # rest) lettercount_word lettercount =
     (if \<not> counter_contains lettercount letter then False
      else if counter_get lettercount_word letter > counter_get lettercount letter then False
      else check_lettercount_loop rest lettercount_word lettercount)"

definition check_lettercount_in_word :: "string \<Rightarrow> string counter \<Rightarrow> bool" where
  "check_lettercount_in_word word lettercount =
     (let lettercount_word = Counter (map (\<lambda>ch. [ch]) word)
      in check_lettercount_loop (counter_keys lettercount_word) lettercount_word lettercount)"

subsection \<open>The grid\<close>

text \<open>
  \<open>self.grid\<close> is a two-dimensional numpy array of dtype \<open><U1\<close>: every cell holds a string
  of length at most one (a longer string is cut to its first character when stored).
  The array is a list of rows. \<open>np.empty\<close> leaves the content unspecified; the model
  takes the empty string for every cell of a new array.
\<close>

record WordGrid =
  grid :: "string list list"
  rows :: int
  cols :: int

definition WordGrid_init :: "int \<Rightarrow> int \<Rightarrow> error + WordGrid" where
  "WordGrid_init m n =
     (if n < 0 then Inl ValueError
      else Inr \<lparr>grid = replicate (nat n) (replicate (nat n) []), rows = m, cols = n\<rparr>)"

definition is_valid_index :: "WordGrid \<Rightarrow> int \<Rightarrow> int \<Rightarrow> bool" where
  "is_valid_index g row col =
     (if 0 \<le> row \<and> row < rows g \<and> 0 \<le> col \<and> col < cols g then True else False)"

text \<open>An index into an axis of length \<open>len\<close>: numpy counts a negative index from the end.\<close>

definition np_index :: "nat \<Rightarrow> int \<Rightarrow> error + nat" where
  "np_index len i =
     (if - int len \<le> i \<and> i < int len
      then Inr (nat (if i < 0 then i + int len else i))
      else Inl IndexError)"

definition get_element :: "WordGrid \<Rightarrow> int \<Rightarrow> int \<Rightarrow> error + string" where
  "get_element g row col =
     (case np_index (length (grid g)) row of
        Inl e \<Rightarrow> Inl e
      | Inr r \<Rightarrow>
         (case np_index (length (grid g ! r)) col of
            Inl e \<Rightarrow> Inl e
          | Inr c \<Rightarrow> Inr (grid g ! r ! c)))"

text \<open>\<open>update_grid_onefield\<close> swallows every exception of the assignment and prints.\<close>

definition update_grid_onefield :: "WordGrid \<Rightarrow> int \<Rightarrow> int \<Rightarrow> string \<Rightarrow> string list \<times> WordGrid" where
  "update_grid_onefield g row col letter =
     (case np_index (length (grid g)) row of
        Inl e \<Rightarrow> ([''it should be 1 letter''], g)
      | Inr r \<Rightarrow>
         (case np_index (length (grid g ! r)) col of
            Inl e \<Rightarrow> ([''it should be 1 letter''], g)
          | Inr c \<Rightarrow> ([], g\<lparr>grid := (grid g)[r := (grid g ! r)[c := take 1 letter]]\<rparr>)))"

text \<open>
  \<open>self.grid[row, :] = values\<close>: numpy broadcasts the values to the row. A sequence as
  long as the row is stored cell by cell, a sequence of length one fills the whole row,
  any other length raises ValueError. The result is the printed lines and the grid.
\<close>

definition np_assign_row :: "string list list \<Rightarrow> int \<Rightarrow> string list \<Rightarrow> error + string list list" where
  "np_assign_row a row values =
     (case np_index (length a) row of
        Inl e \<Rightarrow> Inl e
      | Inr r \<Rightarrow>
         (if length values = length (a ! r) then Inr (a[r := map (take 1) values])
          else if length values = 1 then Inr (a[r := replicate (length (a ! r)) (take 1 (hd values))])
          else Inl ValueError))"

definition update_gridline_from_string ::
    "WordGrid \<Rightarrow> int \<Rightarrow> string \<Rightarrow> error + string list \<times> WordGrid" where
  "update_gridline_from_string g row string =
     (if int (length string) = rows g
      then (case np_assign_row (grid g) row (map (\<lambda>ch. [ch]) string) of
              Inl e \<Rightarrow> Inl e
            | Inr a \<Rightarrow> Inr ([], g\<lparr>grid := a\<rparr>))
      else Inr ([''Your string of letters doesn't really fit into the grid''], g))"

definition update_gridline_from_list ::
    "WordGrid \<Rightarrow> int \<Rightarrow> string list \<Rightarrow> error + string list \<times> WordGrid" where
  "update_gridline_from_list g row lst =
     (if int (length lst) = rows g
      then (case np_assign_row (grid g) row lst of
              Inl e \<Rightarrow> Inl e
            | Inr a \<Rightarrow> Inr ([], g\<lparr>grid := a\<rparr>))
      else Inr ([''Your list of letters doesn't really fit into the grid''], g))"

definition lettercount :: "WordGrid \<Rightarrow> string counter" where
  "lettercount g = Counter (concat (grid g))"

definition get_neighbours_index :: "WordGrid \<Rightarrow> int \<Rightarrow> int \<Rightarrow> (int \<times> int) list" where
  "get_neighbours_index g row col =
     [(row + i, col + j). i \<leftarrow> [-1, 0, 1], j \<leftarrow> [-1, 0, 1],
        is_valid_index g (row + i) (col + j) \<and> \<not> (i = 0 \<and> j = 0)]"

text \<open>A loop whose body may raise: the first exception ends it.\<close>

fun mapM_result :: "('a \<Rightarrow> error + 'b) \<Rightarrow> 'a list \<Rightarrow> error + 'b list" where
  "mapM_result f [] = Inr []"
| "mapM_result f (x # xs) =
     (case f x of
        Inl e \<Rightarrow> Inl e
      | Inr y \<Rightarrow> (case mapM_result f xs of Inl e \<Rightarrow> Inl e | Inr ys \<Rightarrow> Inr (y # ys)))"

text \<open>
  \<open>get_two_neighbours\<close>: the dictionary \<open>neighbour_dict\<close> has one entry per neighbour, in
  the order of \<open>get_neighbours_index\<close> (the neighbours are pairwise different, so no entry
  is overwritten); the second loop reads the letters and may raise IndexError.
\<close>

definition neighbour_dict ::
    "WordGrid \<Rightarrow> int \<Rightarrow> int \<Rightarrow> ((int \<times> int) \<times> (int \<times> int) list) list" where
  "neighbour_dict g row col =
     map (\<lambda>neighbour.
            (neighbour,
             filter (\<lambda>nextneighbour. nextneighbour \<noteq> (row, col))
               (get_neighbours_index g (fst neighbour) (snd neighbour))))
         (get_neighbours_index g row col)"

definition threegrams_of_key ::
    "WordGrid \<Rightarrow> int \<Rightarrow> int \<Rightarrow> (int \<times> int) \<times> (int \<times> int) list \<Rightarrow> error + string list" where
  "threegrams_of_key g row col entry =
     (case get_element g row col of
        Inl e \<Rightarrow> Inl e
      | Inr a \<Rightarrow>
         (case get_element g (fst (fst entry)) (snd (fst entry)) of
            Inl e \<Rightarrow> Inl e
          | Inr b \<Rightarrow>
             mapM_result
               (\<lambda>item. case get_element g (fst item) (snd item) of
                         Inl e \<Rightarrow> Inl e
                       | Inr d \<Rightarrow> Inr ((a @ b) @ d))
               (snd entry)))"

definition get_two_neighbours :: "WordGrid \<Rightarrow> int \<Rightarrow> int \<Rightarrow> error + string set" where
  "get_two_neighbours g row col =
     (case mapM_result (threegrams_of_key g row col) (neighbour_dict g row col) of
        Inl e \<Rightarrow> Inl e
      | Inr threegrams \<Rightarrow> Inr (set (concat threegrams)))"

definition get_all_threegrams :: "WordGrid \<Rightarrow> error + string set" where
  "get_all_threegrams g =
     (case mapM_result (\<lambda>(row, col). get_two_neighbours g row col)
             [(row, col). row \<leftarrow> map int [0 ..< nat (rows g)],
                          col \<leftarrow> map int [0 ..< nat (cols g)]] of
        Inl e \<Rightarrow> Inl e
      | Inr allgrams \<Rightarrow> Inr (\<Union> (set allgrams)))"

subsection \<open>Filtering the word list\<close>

text \<open>
  \<open>str.strip()\<close> removes the white space at both ends. The white space characters below
  code point 256 are 9 to 13, 28 to 32, 133 and 160.
\<close>

definition is_space :: "char \<Rightarrow> bool" where
  "is_space c = ((of_char c :: nat) \<in> {9, 10, 11, 12, 13, 28, 29, 30, 31, 32, 133, 160})"

definition strip :: "string \<Rightarrow> string" where
  "strip s = rev (dropWhile is_space (rev (dropWhile is_space s)))"

text \<open>
  The loop of \<open>filter_wordlistfile\<close> over the lines of the opened file, with the list
  \<open>possible_words\<close> it appends to.
\<close>

fun filter_loop :: "string list \<Rightarrow> string list \<Rightarrow> string counter \<Rightarrow> string set \<Rightarrow> string list" where
  "filter_loop possible_words [] lc threegrams = possible_words"
| "filter_loop possible_words (line # fin) lc threegrams =
     (let word = strip line in
      if length word > 3 \<and> check_lettercount_in_word word lc
      then (if check_ngrams_in_word word threegrams 3
            then filter_loop (possible_words @ [word]) fin lc threegrams
            else filter_loop possible_words fin lc threegrams)
      else filter_loop possible_words fin lc threegrams)"

text \<open>\<open>fin\<close> is the opened file, as the list of its lines.\<close>

definition filter_wordlistfile :: "string list \<Rightarrow> WordGrid \<Rightarrow> error + string list" where
  "filter_wordlistfile fin g =
     (let lc = lettercount g in
      case get_all_threegrams g of
        Inl e \<Rightarrow> Inl e
      | Inr threegrams \<Rightarrow> Inr (filter_loop [] fin lc threegrams))"

subsection \<open>Notions of the specification and concrete grids\<close>

text \<open>
  The constructor builds an array with \<open>cols\<close> rows of \<open>cols\<close> cells (\<open>shape=(n, n)\<close>);
  the operations keep that shape. A grid is fully constructed when both dimensions are
  positive and every cell of the array holds one character.
\<close>

definition array_shape_ok :: "WordGrid \<Rightarrow> bool" where
  "array_shape_ok g =
     (length (grid g) = nat (cols g) \<and> list_all (\<lambda>row. length row = nat (cols g)) (grid g))"

definition fully_constructed :: "WordGrid \<Rightarrow> bool" where
  "fully_constructed g =
     (0 < rows g \<and> 0 < cols g \<and> array_shape_ok g
      \<and> list_all (list_all (\<lambda>cell. length cell = 1)) (grid g))"

text \<open>The gap marker is the space character, as the prompt of the program says.\<close>

definition gap_marker :: string where
  "gap_marker = '' ''"

definition nongap_cells_holding :: "WordGrid \<Rightarrow> string \<Rightarrow> nat" where
  "nongap_cells_holding g c =
     length (filter (\<lambda>cell. cell \<noteq> gap_marker \<and> cell = c) (concat (grid g)))"

definition chebyshev :: "int \<times> int \<Rightarrow> int \<times> int \<Rightarrow> int" where
  "chebyshev p q = max \<bar>fst p - fst q\<bar> \<bar>snd p - snd q\<bar>"

definition grid_1_by_1 :: WordGrid where
  "grid_1_by_1 = \<lparr>grid = [[''a'']], rows = 1, cols = 1\<rparr>"

definition grid_ab_cd :: WordGrid where
  "grid_ab_cd = \<lparr>grid = [[''a'', ''b''], [''c'', ''d'']], rows = 2, cols = 2\<rparr>"

definition grid_a_gap :: WordGrid where
  "grid_a_gap = \<lparr>grid = [[''a'', '' ''], [''c'', ''d'']], rows = 2, cols = 2\<rparr>"

definition grid_3_by_2 :: WordGrid where
  "grid_3_by_2 = \<lparr>grid = [[''a'', ''b''], [''c'', ''d'']], rows = 3, cols = 2\<rparr>"

definition grid_2_by_3 :: WordGrid where
  "grid_2_by_3 = \<lparr>grid = replicate 3 (replicate 3 []), rows = 2, cols = 3\<rparr>"

definition grid_1_by_3 :: WordGrid where
  "grid_1_by_3 = \<lparr>grid = replicate 3 (replicate 3 []), rows = 1, cols = 3\<rparr>"

text \<open>
  The specification takes a line of the dictionary with its trailing white space
  removed; \<open>rstrip\<close> is that reading of a line (\<open>str.rstrip()\<close>). The program calls
  \<open>str.strip()\<close>.
\<close>

definition rstrip :: "string \<Rightarrow> string" where
  "rstrip s = rev (dropWhile is_space (rev s))"

definition grid_AB_CD :: WordGrid where
  "grid_AB_CD = \<lparr>grid = [[''A'', ''B''], [''C'', ''D'']], rows = 2, cols = 2\<rparr>"

section \<open>Properties\<close>

subsection \<open>Counter and the letter-budget check\<close>

lemma map_of_counter_incr:
  "map_of (counter_incr k m) k' =
     (if k' = k then Some (counter_get m k + 1) else map_of m k')"
  by (induction m) (auto simp: counter_get_def)

lemma counter_keys_incr:
  "counter_keys (counter_incr k m) =
     (if k \<in> set (counter_keys m) then counter_keys m else counter_keys m @ [k])"
  by (induction m) (force simp: counter_keys_def)+

lemma keys_counter_incr:
  "set (counter_keys (counter_incr k m)) = insert k (set (counter_keys m))"
  by (auto simp: counter_keys_incr)

lemma map_of_counter_foldl:
  "map_of (foldl (\<lambda>m x. counter_incr x m) m xs) k =
     (if k \<in> set xs then Some (counter_get m k + int (count_list xs k)) else map_of m k)"
proof (induction xs arbitrary: m)
  case Nil
  then show ?case by simp
next
  case (Cons x xs)
  show ?case
    by (simp add: Cons.IH map_of_counter_incr counter_get_def)
qed

lemma keys_counter_foldl:
  "set (counter_keys (foldl (\<lambda>m x. counter_incr x m) m xs)) = set (counter_keys m) \<union> set xs"
  by (induction xs arbitrary: m) (auto simp: keys_counter_incr)

lemma map_of_Counter:
  "map_of (Counter xs) k = (if k \<in> set xs then Some (int (count_list xs k)) else None)"
  by (simp add: Counter_def map_of_counter_foldl counter_get_def)

lemma keys_Counter: "set (counter_keys (Counter xs)) = set xs"
  unfolding Counter_def keys_counter_foldl by (simp add: counter_keys_def)

lemma counter_get_Counter: "counter_get (Counter xs) k = int (count_list xs k)"
  by (simp add: counter_get_def map_of_Counter count_list_0_iff)

lemma counter_contains_Counter: "counter_contains (Counter xs) k = (k \<in> set xs)"
  by (simp add: counter_contains_def keys_Counter)

lemma check_lettercount_loop_iff:
  "check_lettercount_loop letters lcw lc =
     (\<forall>letter \<in> set letters. counter_contains lc letter \<and> counter_get lcw letter \<le> counter_get lc letter)"
  by (induction letters) auto

lemma count_list_singletons: "count_list (map (\<lambda>ch. [ch]) word) [ch] = count_list word ch"
  by (induction word) auto

lemma check_lettercount_in_word_iff:
  "check_lettercount_in_word word lc =
     (\<forall>ch \<in> set word. counter_contains lc [ch] \<and> int (count_list word ch) \<le> counter_get lc [ch])"
  by (auto simp: check_lettercount_in_word_def check_lettercount_loop_iff keys_Counter
      counter_get_Counter count_list_singletons)

lemma counter_contains_iff: "counter_contains m k = (map_of m k \<noteq> None)"
  by (simp add: counter_contains_def counter_keys_def map_of_eq_None_iff)

lemma counter_get_pos_contains: "0 < counter_get m k \<Longrightarrow> counter_contains m k"
  by (auto simp: counter_contains_iff counter_get_def split: option.splits)

text \<open>
  Claim C9. The letter-budget check is monotone in the budget. Two budgets are compared
  pointwise on the counts they answer (a Counter answers 0 for a letter it does not hold):
  a word that passes \<open>check_lettercount_in_word\<close> under \<open>B\<close> passes under every \<open>B'\<close> whose
  counts are at least those of \<open>B\<close>. Read the other way round, a word rejected under the
  larger budget is rejected under the smaller one.
\<close>

theorem check_lettercount_monotone:
  assumes le: "\<forall>k. counter_get B k \<le> counter_get B' k"
    and acc: "check_lettercount_in_word word B"
  shows "check_lettercount_in_word word B'"
  unfolding check_lettercount_in_word_iff
proof
  fix ch assume ch: "ch \<in> set word"
  from acc ch have c: "int (count_list word ch) \<le> counter_get B [ch]"
    by (simp add: check_lettercount_in_word_iff)
  from ch have "0 < count_list word ch" using count_list_0_iff [of word ch] by auto
  moreover from le have "counter_get B [ch] \<le> counter_get B' [ch]" by blast
  ultimately have "0 < counter_get B' [ch]" and "int (count_list word ch) \<le> counter_get B' [ch]"
    using c by linarith+
  then show "counter_contains B' [ch] \<and> int (count_list word ch) \<le> counter_get B' [ch]"
    by (simp add: counter_get_pos_contains)
qed

theorem check_lettercount_monotone_witness:
  "(\<forall>k. counter_get [(''a'', 1)] k \<le> counter_get [(''a'', 2), (''b'', 1)] k)
   \<and> check_lettercount_in_word ''a'' [(''a'', 1)]
   \<and> check_lettercount_in_word ''a'' [(''a'', 2), (''b'', 1)]"
proof -
  have le: "\<forall>k. counter_get [(''a'', 1)] k \<le> counter_get [(''a'', 2), (''b'', 1)] k"
    by (simp add: counter_get_def)
  have acc: "check_lettercount_in_word ''a'' [(''a'', 1)]"
    by code_simp
  from check_lettercount_monotone [OF le acc] le acc show ?thesis by blast
qed

subsection \<open>The filtering loop\<close>

lemma filter_loop_eq:
  "filter_loop acc fin lc tg =
     acc @ filter (\<lambda>w. 3 < length w \<and> check_lettercount_in_word w lc \<and> check_ngrams_in_word w tg 3)
             (map strip fin)"
  by (induction fin arbitrary: acc) (auto simp: Let_def)

lemma filter_wordlistfile_eq:
  "get_all_threegrams g = Inr T \<Longrightarrow>
     filter_wordlistfile fin g =
       Inr (filter (\<lambda>w. 3 < length w \<and> check_lettercount_in_word w (lettercount g)
                        \<and> check_ngrams_in_word w T 3) (map strip fin))"
  by (simp add: filter_wordlistfile_def filter_loop_eq)

lemma check_ngrams_loop_iff:
  "check_ngrams_loop is word ngramset n = (\<forall>i \<in> set is. take n (drop i word) \<in> ngramset)"
  by (induction "is") auto

lemma check_ngrams_in_word_iff:
  "check_ngrams_in_word word ngramset n =
     (\<forall>i. i + n \<le> length word \<longrightarrow> take n (drop i word) \<in> ngramset)"
proof -
  have "i < nat (int (length word) - int n + 1) \<longleftrightarrow> i + n \<le> length word" for i
    by arith
  then show ?thesis
    unfolding check_ngrams_in_word_def check_ngrams_loop_iff by auto
qed

lemma last_dropWhile: "dropWhile P xs \<noteq> [] \<Longrightarrow> last (dropWhile P xs) = last xs"
  by (induction xs) (auto split: if_splits)

lemma strip_decomposition:
  "\<exists>pre post. line = pre @ strip line @ post
      \<and> (\<forall>c \<in> set pre. is_space c) \<and> (\<forall>c \<in> set post. is_space c)"
proof -
  let ?s1 = "dropWhile is_space line"
  let ?pre = "takeWhile is_space line"
  let ?post = "rev (takeWhile is_space (rev ?s1))"
  have "rev (takeWhile is_space (rev ?s1) @ dropWhile is_space (rev ?s1)) = rev (rev ?s1)"
    by (simp only: takeWhile_dropWhile_id)
  then have "rev (dropWhile is_space (rev ?s1)) @ ?post = ?s1"
    by (simp only: rev_append rev_rev_ident)
  then have "?s1 = strip line @ ?post"
    by (simp only: strip_def)
  moreover have "line = ?pre @ ?s1"
    by (simp only: takeWhile_dropWhile_id)
  ultimately have dec: "line = ?pre @ strip line @ ?post"
    by (simp only:)
  note dec
  moreover have "\<forall>c \<in> set ?pre. is_space c"
    by (auto dest: set_takeWhileD)
  moreover have "\<forall>c \<in> set ?post. is_space c"
    by (auto dest: set_takeWhileD)
  ultimately show ?thesis by (intro exI [of _ ?pre] exI [of _ ?post] conjI)
qed

lemma strip_ends:
  assumes "strip line \<noteq> []"
  shows "\<not> is_space (hd (strip line)) \<and> \<not> is_space (last (strip line))"
proof -
  let ?s1 = "dropWhile is_space line"
  let ?d = "dropWhile is_space (rev ?s1)"
  from assms have d: "?d \<noteq> []" by (simp add: strip_def)
  then have s1: "?s1 \<noteq> []" by (metis dropWhile.simps(1) rev.simps(1))
  have "last (strip line) = hd ?d"
    using d by (simp add: strip_def last_rev)
  moreover have "\<not> is_space (hd ?d)"
    using d by (rule hd_dropWhile)
  moreover have "hd (strip line) = last ?d"
    using d by (simp add: strip_def hd_rev)
  moreover have "last ?d = last (rev ?s1)"
    using d by (rule last_dropWhile)
  moreover have "last (rev ?s1) = hd ?s1"
    using s1 by (simp add: last_rev)
  moreover have "\<not> is_space (hd ?s1)"
    using s1 by (rule hd_dropWhile)
  ultimately show ?thesis by simp
qed

text \<open>
  Claim C6, as the specification states it: the words of the dictionary stream are the
  lines with their trailing white space removed, and the output holds exactly those of
  them that are longer than 3 and pass both checks. The line made of a blank and \<open>acd\<close>
  gives a word of length 4 that passes the letter-budget check of the grid \<open>a\<close>, gap,
  \<open>c\<close>, \<open>d\<close> and the trigram check, and yet the output is empty: \<open>line.strip()\<close> removes the
  leading blank too, and the word \<open>acd\<close> that is left is too short.
\<close>

theorem filter_loop_leading_blank_counterexample:
  "rstrip '' acd\<newline>'' = '' acd''
   \<and> 3 < length '' acd''
   \<and> check_lettercount_in_word '' acd'' (lettercount grid_a_gap)
   \<and> check_ngrams_in_word '' acd'' (set ['' ac'', ''acd'']) 3
   \<and> strip '' acd\<newline>'' = ''acd''
   \<and> filter_loop [] ['' acd\<newline>''] (lettercount grid_a_gap) (set ['' ac'', ''acd'']) = []
   \<and> filter_wordlistfile ['' acd\<newline>''] grid_a_gap = Inr []"
proof -
  have "rstrip '' acd\<newline>'' = '' acd''" "strip '' acd\<newline>'' = ''acd''"
    by (simp_all add: rstrip_def strip_def is_space_def)
  moreover have "check_lettercount_in_word '' acd'' (lettercount grid_a_gap)"
    by code_simp
  moreover have "check_ngrams_in_word '' acd'' (set ['' ac'', ''acd'']) 3"
    by code_simp
  moreover have
    "filter_loop [] ['' acd\<newline>''] (lettercount grid_a_gap) (set ['' ac'', ''acd'']) = []"
    by code_simp
  moreover have "filter_wordlistfile ['' acd\<newline>''] grid_a_gap = Inr []"
    by code_simp
  ultimately show ?thesis by simp
qed

text \<open>
  Claim C6, amended: the word of a line is the line with the white space at both ends
  removed (\<open>line.strip()\<close>): the line is white space, then the word, then white space, and
  a word that is not empty neither begins nor ends with white space. For every letter
  budget and every trigram set, the list built by the filtering loop is the list of these
  words, in the order of the lines, restricted to the words \<open>w\<close> with \<open>len(w) > 3\<close> such that
  every character of \<open>w\<close> is a key of the budget and occurs in \<open>w\<close> at most as often as the
  budget says, and every substring of length 3 of \<open>w\<close> is in the trigram set. It is a
  subsequence of the list of words.
\<close>

theorem filter_loop_exact:
  "filter_loop [] fin lc tg =
     filter (\<lambda>w. 3 < length w
                \<and> (\<forall>ch \<in> set w. counter_contains lc [ch]
                       \<and> int (count_list w ch) \<le> counter_get lc [ch])
                \<and> (\<forall>i. i + 3 \<le> length w \<longrightarrow> take 3 (drop i w) \<in> tg))
       (map strip fin)
   \<and> subseq (filter_loop [] fin lc tg) (map strip fin)
   \<and> (\<exists>pre post. line = pre @ strip line @ post
         \<and> (\<forall>c \<in> set pre. is_space c) \<and> (\<forall>c \<in> set post. is_space c))
   \<and> (strip line \<noteq> [] \<longrightarrow> \<not> is_space (hd (strip line)) \<and> \<not> is_space (last (strip line)))"
proof -
  have "filter_loop [] fin lc tg =
     filter (\<lambda>w. 3 < length w
                \<and> (\<forall>ch \<in> set w. counter_contains lc [ch]
                       \<and> int (count_list w ch) \<le> counter_get lc [ch])
                \<and> (\<forall>i. i + 3 \<le> length w \<longrightarrow> take 3 (drop i w) \<in> tg))
       (map strip fin)"
    by (simp only: filter_loop_eq check_lettercount_in_word_iff check_ngrams_in_word_iff
        append_Nil)
  moreover have "subseq (filter_loop [] fin lc tg) (map strip fin)"
    by (simp add: filter_loop_eq)
  ultimately show ?thesis
    using strip_decomposition [of line] strip_ends [of line] by blast
qed

theorem filter_loop_exact_witness:
  "filter_loop []
       [''  abcd \<newline>'', ''abc\<newline>'', ''aabc\<newline>'', ''abdc\<newline>'', ''dcba\<newline>'']
       (lettercount grid_ab_cd) (set [''abc'', ''bcd'', ''dcb'', ''cba''])
     = [''abcd'', ''dcba'']
   \<and> strip ''  abcd \<newline>'' = ''abcd''
   \<and> 3 < length ''abcd''
   \<and> counter_contains (lettercount grid_ab_cd) ''a''
   \<and> int (count_list ''abcd'' CHR ''a'') \<le> counter_get (lettercount grid_ab_cd) ''a''
   \<and> take 3 (drop 0 ''abcd'') \<in> set [''abc'', ''bcd'', ''dcb'', ''cba'']
   \<and> take 3 (drop 1 ''abcd'') \<in> set [''abc'', ''bcd'', ''dcb'', ''cba'']
   \<and> \<not> is_space (hd ''abcd'') \<and> \<not> is_space (last ''abcd'')"
proof -
  let ?fin = "[''  abcd \<newline>'', ''abc\<newline>'', ''aabc\<newline>'', ''abdc\<newline>'', ''dcba\<newline>'']"
  let ?lc = "lettercount grid_ab_cd"
  let ?tg = "set [''abc'', ''bcd'', ''dcb'', ''cba'']"
  let ?P = "\<lambda>w. 3 < length w
                \<and> (\<forall>ch \<in> set w. counter_contains ?lc [ch]
                       \<and> int (count_list w ch) \<le> counter_get ?lc [ch])
                \<and> (\<forall>i. i + 3 \<le> length w \<longrightarrow> take 3 (drop i w) \<in> ?tg)"
  have out: "filter_loop [] ?fin ?lc ?tg = [''abcd'', ''dcba'']"
    by code_simp
  have st: "strip ''  abcd \<newline>'' = ''abcd''"
    by (simp add: strip_def is_space_def)
  note ex = filter_loop_exact [of ?fin ?lc ?tg "''  abcd \<newline>''"]
  from ex out have "[''abcd'', ''dcba''] = filter ?P (map strip ?fin)"
    by (simp only:)
  then have "''abcd'' \<in> set (filter ?P (map strip ?fin))"
    by (metis list.set_intros(1))
  then have P: "?P ''abcd''" unfolding set_filter mem_Collect_eq by (rule conjunct2)
  then have len: "3 < length ''abcd''"
    and bud: "\<forall>ch \<in> set ''abcd''. counter_contains ?lc [ch]
                \<and> int (count_list ''abcd'' ch) \<le> counter_get ?lc [ch]"
    and tri: "\<forall>i. i + 3 \<le> length ''abcd'' \<longrightarrow> take 3 (drop i ''abcd'') \<in> ?tg"
    by blast+
  have "CHR ''a'' \<in> set ''abcd''" by simp
  with bud have a: "counter_contains ?lc ''a''"
    "int (count_list ''abcd'' CHR ''a'') \<le> counter_get ?lc ''a''"
    by blast+
  have "0 + 3 \<le> length ''abcd''" "1 + 3 \<le> length ''abcd''" by simp_all
  with tri have t: "take 3 (drop 0 ''abcd'') \<in> ?tg" "take 3 (drop 1 ''abcd'') \<in> ?tg"
    by blast+
  from ex st have "\<not> is_space (hd ''abcd'') \<and> \<not> is_space (last ''abcd'')"
    by simp
  with out st len a t show ?thesis by blast
qed

text \<open>
  Claim C10. A word shorter than \<open>n\<close> passes \<open>check_ngrams_in_word\<close> for every n-gram set,
  the empty one included, since the loop has no iteration. A word of length at most 3 is
  nevertheless never in the output of the filtering loop: the test \<open>len(word) > 3\<close> is what
  excludes it.
\<close>

theorem check_ngrams_in_word_short:
  assumes "length word < n"
  shows "check_ngrams_in_word word ngramset n
    \<and> (length word \<le> 3 \<longrightarrow> word \<notin> set (filter_loop [] fin lc threegrams))"
proof -
  from assms have "nat (int (length word) - int n + 1) = 0" by simp
  then have "check_ngrams_in_word word ngramset n"
    by (simp add: check_ngrams_in_word_def)
  then show ?thesis by (auto simp: filter_loop_eq)
qed

theorem check_ngrams_in_word_short_witness:
  "length ''ab'' < (3::nat) \<and> check_ngrams_in_word ''ab'' {} 3
   \<and> length ''ab'' \<le> 3 \<and> ''ab'' \<notin> set (filter_loop [] [''ab''] [(''a'', 1), (''b'', 1)] {})"
  using check_ngrams_in_word_short [of "''ab''" 3 "{}" "[''ab'']" "[(''a'', 1), (''b'', 1)]" "{}"]
  by simp

subsection \<open>Building the concrete grids\<close>

lemma grid_1_by_1_built:
  "WordGrid_init 1 1 = Inr \<lparr>grid = [[[]]], rows = 1, cols = 1\<rparr>
   \<and> update_grid_onefield \<lparr>grid = [[[]]], rows = 1, cols = 1\<rparr> 0 0 ''a'' = ([], grid_1_by_1)"
  by (simp add: WordGrid_init_def update_grid_onefield_def np_index_def grid_1_by_1_def)

lemma grid_ab_cd_built:
  "WordGrid_init 2 2 = Inr \<lparr>grid = [[[], []], [[], []]], rows = 2, cols = 2\<rparr>
   \<and> update_gridline_from_string \<lparr>grid = [[[], []], [[], []]], rows = 2, cols = 2\<rparr> 0 ''ab''
       = Inr ([], \<lparr>grid = [[''a'', ''b''], [[], []]], rows = 2, cols = 2\<rparr>)
   \<and> update_gridline_from_string \<lparr>grid = [[''a'', ''b''], [[], []]], rows = 2, cols = 2\<rparr> 1 ''cd''
       = Inr ([], grid_ab_cd)"
  by (simp add: WordGrid_init_def update_gridline_from_string_def np_assign_row_def np_index_def
      grid_ab_cd_def numeral_2_eq_2)

lemma grid_a_gap_built:
  "update_gridline_from_string \<lparr>grid = [[[], []], [[], []]], rows = 2, cols = 2\<rparr> 0 ''a ''
       = Inr ([], \<lparr>grid = [[''a'', '' ''], [[], []]], rows = 2, cols = 2\<rparr>)
   \<and> update_gridline_from_string \<lparr>grid = [[''a'', '' ''], [[], []]], rows = 2, cols = 2\<rparr> 1 ''cd''
       = Inr ([], grid_a_gap)"
  by (simp add: update_gridline_from_string_def np_assign_row_def np_index_def grid_a_gap_def)

lemma grid_3_by_2_built:
  "WordGrid_init 3 2 = Inr \<lparr>grid = [[[], []], [[], []]], rows = 3, cols = 2\<rparr>
   \<and> update_grid_onefield \<lparr>grid = [[[], []], [[], []]], rows = 3, cols = 2\<rparr> 0 0 ''a''
       = ([], \<lparr>grid = [[''a'', []], [[], []]], rows = 3, cols = 2\<rparr>)
   \<and> update_grid_onefield \<lparr>grid = [[''a'', []], [[], []]], rows = 3, cols = 2\<rparr> 0 1 ''b''
       = ([], \<lparr>grid = [[''a'', ''b''], [[], []]], rows = 3, cols = 2\<rparr>)
   \<and> update_grid_onefield \<lparr>grid = [[''a'', ''b''], [[], []]], rows = 3, cols = 2\<rparr> 1 0 ''c''
       = ([], \<lparr>grid = [[''a'', ''b''], [''c'', []]], rows = 3, cols = 2\<rparr>)
   \<and> update_grid_onefield \<lparr>grid = [[''a'', ''b''], [''c'', []]], rows = 3, cols = 2\<rparr> 1 1 ''d''
       = ([], grid_3_by_2)"
  by (simp add: WordGrid_init_def update_grid_onefield_def np_index_def grid_3_by_2_def
      numeral_2_eq_2)

lemma grid_ab_cd_full: "fully_constructed grid_ab_cd"
  by (simp add: fully_constructed_def array_shape_ok_def grid_ab_cd_def)

lemma grid_3_by_2_full: "fully_constructed grid_3_by_2"
  by (simp add: fully_constructed_def array_shape_ok_def grid_3_by_2_def)

lemma grid_a_gap_full: "fully_constructed grid_a_gap"
  by (simp add: fully_constructed_def array_shape_ok_def grid_a_gap_def)

lemma grid_1_by_1_full: "fully_constructed grid_1_by_1"
  by (simp add: fully_constructed_def array_shape_ok_def grid_1_by_1_def)

subsection \<open>The constructor and the shape of the array\<close>

lemma WordGrid_init_shape:
  "0 \<le> n \<Longrightarrow> \<exists>g. WordGrid_init m n = Inr g \<and> array_shape_ok g \<and> rows g = m \<and> cols g = n"
  by (simp add: WordGrid_init_def array_shape_ok_def list_all_iff)

lemma update_grid_onefield_shape:
  "array_shape_ok g \<Longrightarrow> array_shape_ok (snd (update_grid_onefield g row col letter))"
  by (auto simp: update_grid_onefield_def array_shape_ok_def list_all_iff np_index_def
      split: sum.splits if_splits dest!: set_update_subset_insert [THEN subsetD])

lemma np_assign_row_shape:
  assumes "np_assign_row a row values = Inr a'"
  shows "length a' = length a \<and> (list_all (\<lambda>r. length r = k) a \<longrightarrow> list_all (\<lambda>r. length r = k) a')"
proof -
  from assms obtain r where r: "np_index (length a) row = Inr r"
    by (auto simp: np_assign_row_def split: sum.splits)
  then have lt: "r < length a" by (auto simp: np_index_def split: if_splits)
  from assms r consider "length values = length (a ! r)" "a' = a[r := map (take 1) values]"
    | "a' = a[r := replicate (length (a ! r)) (take 1 (hd values))]"
    by (auto simp: np_assign_row_def split: if_splits)
  then show ?thesis
  proof cases
    case 1
    with lt show ?thesis
      by (auto simp: list_all_iff dest!: set_update_subset_insert [THEN subsetD])
  next
    case 2
    with lt show ?thesis
      by (auto simp: list_all_iff dest!: set_update_subset_insert [THEN subsetD])
  qed
qed

lemma update_gridline_from_string_shape:
  assumes "array_shape_ok g" "update_gridline_from_string g row string = Inr (out, g')"
  shows "array_shape_ok g' \<and> rows g' = rows g \<and> cols g' = cols g"
  using assms np_assign_row_shape [of "grid g" row "map (\<lambda>ch. [ch]) string" _ "nat (cols g)"]
  by (auto simp: update_gridline_from_string_def array_shape_ok_def split: if_splits sum.splits)

text \<open>
  Claim C1. \<open>WordGrid(m, n)\<close> is to give an array of \<open>m\<close> rows with \<open>n\<close> entries each. The
  constructor builds \<open>np.empty(shape=(n, n))\<close>: for \<open>WordGrid(2, 3)\<close> the array has three
  rows, while \<open>rows\<close> is 2.
\<close>

theorem WordGrid_init_2_3_not_2_rows:
  "WordGrid_init 2 3 = Inr grid_2_by_3
   \<and> rows grid_2_by_3 = 2 \<and> cols grid_2_by_3 = 3
   \<and> length (grid grid_2_by_3) = 3
   \<and> int (length (grid grid_2_by_3)) \<noteq> rows grid_2_by_3"
  by (simp add: WordGrid_init_def grid_2_by_3_def)

lemma update_gridline_from_string_rejects:
  "int (length string) \<noteq> rows g \<Longrightarrow>
     update_gridline_from_string g row string
       = Inr ([''Your string of letters doesn't really fit into the grid''], g)"
  by (simp add: update_gridline_from_string_def)

lemma update_gridline_from_string_square:
  assumes "array_shape_ok g" "rows g = cols g" "0 \<le> row" "row < rows g"
    and "int (length string) = cols g"
  shows "update_gridline_from_string g row string
       = Inr ([], g\<lparr>grid := (grid g)[nat row := map (\<lambda>ch. [ch]) string]\<rparr>)"
proof -
  from assms have r: "np_index (length (grid g)) row = Inr (nat row)"
    by (simp add: np_index_def array_shape_ok_def)
  from assms have "nat row < length (grid g)" by (simp add: array_shape_ok_def)
  with assms(1) have "length (grid g ! nat row) = nat (cols g)"
    by (simp add: array_shape_ok_def list_all_length)
  with assms(5) have len: "length (map (\<lambda>ch. [ch]) string) = length (grid g ! nat row)"
    by simp
  have "take (Suc 0) \<circ> (\<lambda>ch. [ch]) = (\<lambda>ch::char. [ch])"
    by (simp add: fun_eq_iff)
  with r len assms(2,5) show ?thesis
    by (simp add: update_gridline_from_string_def np_assign_row_def)
qed

text \<open>
  Claim C3. Assigning a row from a string is to succeed exactly when the length of the
  string is \<open>cols\<close>. The code compares the length with \<open>rows\<close>. On the grid of
  \<open>WordGrid(2, 3)\<close> a string of length 3 is turned away with the message and a string of
  length 2 passes the test and raises ValueError in the assignment; on the grid of
  \<open>WordGrid(1, 3)\<close> a string of length 1 is accepted and fills the whole row.
\<close>

theorem update_gridline_from_string_compares_rows:
  "update_gridline_from_string grid_2_by_3 0 ''abc''
         = Inr ([''Your string of letters doesn't really fit into the grid''], grid_2_by_3)
   \<and> update_gridline_from_string grid_2_by_3 0 ''ab'' = Inl ValueError
   \<and> update_gridline_from_string grid_1_by_3 0 ''a''
         = Inr ([], grid_1_by_3\<lparr>grid := [[''a'', ''a'', ''a''], [[], [], []], [[], [], []]]\<rparr>)"
  by (simp add: update_gridline_from_string_def grid_2_by_3_def grid_1_by_3_def np_assign_row_def
      np_index_def numeral_3_eq_3)

subsection \<open>The letter count of the grid\<close>

text \<open>
  Claim C5, as the specification states it: the budget of \<open>c\<close> is the number of non-gap
  cells holding \<open>c\<close>, and the gap marker has no entry. On the grid with rows \<open>a\<close>, gap and
  \<open>c\<close>, \<open>d\<close> the gap marker has an entry, with count 1.
\<close>

theorem lettercount_gap_counterexample:
  "fully_constructed grid_a_gap
   \<and> counter_contains (lettercount grid_a_gap) gap_marker
   \<and> counter_get (lettercount grid_a_gap) gap_marker = 1
   \<and> counter_get (lettercount grid_a_gap) gap_marker
       \<noteq> int (nongap_cells_holding grid_a_gap gap_marker)"
  by (simp add: fully_constructed_def array_shape_ok_def lettercount_def grid_a_gap_def Counter_def
      counter_contains_def counter_keys_def counter_get_def nongap_cells_holding_def
      gap_marker_def)

lemma count_list_filter: "count_list xs c = length (filter (\<lambda>x. x = c) xs)"
  by (induction xs) auto

lemma nongap_cells_holding_eq:
  "nongap_cells_holding g c = (if c = gap_marker then 0 else count_list (concat (grid g)) c)"
  by (auto simp: nongap_cells_holding_def count_list_filter intro: arg_cong [where f = length]
      filter_cong)

text \<open>
  Claim C5, amended: \<open>lettercount()\<close> counts every cell of the array, gap cells included.
  It maps every cell value \<open>c\<close> to the number of cells holding \<open>c\<close>, and \<open>c\<close> has an entry
  exactly when some cell holds it. For \<open>c\<close> other than the gap marker the count is the number
  of non-gap cells holding \<open>c\<close>; the gap marker gets the number of gap cells.
\<close>

theorem lettercount_counts_cells:
  "counter_get (lettercount g) c = int (count_list (concat (grid g)) c)
   \<and> counter_contains (lettercount g) c = (c \<in> set (concat (grid g)))
   \<and> counter_get (lettercount g) c =
       (if c = gap_marker then int (count_list (concat (grid g)) gap_marker)
        else int (nongap_cells_holding g c))"
  by (simp add: lettercount_def counter_get_Counter counter_contains_Counter
      nongap_cells_holding_eq)

theorem lettercount_counts_cells_witness:
  "counter_get (lettercount grid_a_gap) ''a'' = 1
   \<and> counter_contains (lettercount grid_a_gap) ''a''
   \<and> nongap_cells_holding grid_a_gap ''a'' = 1"
  using lettercount_counts_cells [of grid_a_gap "''a''"]
  by (simp add: grid_a_gap_def gap_marker_def)

subsection \<open>Neighbours\<close>

lemma get_neighbours_index_unfold:
  "get_neighbours_index g row col =
     (if is_valid_index g (row - 1) (col - 1) then [(row - 1, col - 1)] else []) @
     (if is_valid_index g (row - 1) col then [(row - 1, col)] else []) @
     (if is_valid_index g (row - 1) (col + 1) then [(row - 1, col + 1)] else []) @
     (if is_valid_index g row (col - 1) then [(row, col - 1)] else []) @
     (if is_valid_index g row (col + 1) then [(row, col + 1)] else []) @
     (if is_valid_index g (row + 1) (col - 1) then [(row + 1, col - 1)] else []) @
     (if is_valid_index g (row + 1) col then [(row + 1, col)] else []) @
     (if is_valid_index g (row + 1) (col + 1) then [(row + 1, col + 1)] else [])"
  by (simp add: get_neighbours_index_def)

lemma set_get_neighbours_index:
  "set (get_neighbours_index g row col) =
     {p. is_valid_index g (fst p) (snd p) \<and> chebyshev p (row, col) = 1}"
  (is "?L = ?R")
proof (rule set_eqI)
  fix p :: "int \<times> int"
  obtain r c where p: "p = (r, c)" by (cases p)
  have "chebyshev (r, c) (row, col) = 1 \<longleftrightarrow>
      (r = row - 1 \<or> r = row \<or> r = row + 1) \<and> (c = col - 1 \<or> c = col \<or> c = col + 1)
      \<and> \<not> (r = row \<and> c = col)"
    unfolding chebyshev_def by (simp add: max_def abs_if) arith
  then show "p \<in> ?L \<longleftrightarrow> p \<in> ?R"
    unfolding p get_neighbours_index_unfold by auto
qed

lemma distinct_get_neighbours_index: "distinct (get_neighbours_index g row col)"
  unfolding get_neighbours_index_unfold by simp

lemma valid_neighbours:
  "p \<in> set (get_neighbours_index g row col) \<Longrightarrow> is_valid_index g (fst p) (snd p)"
  by (simp add: set_get_neighbours_index)

lemma length_get_neighbours_index:
  assumes "2 \<le> rows g" "2 \<le> cols g" "is_valid_index g row col"
  shows "length (get_neighbours_index g row col) =
     (if (row = 0 \<or> row = rows g - 1) \<and> (col = 0 \<or> col = cols g - 1) then 3
      else if row = 0 \<or> row = rows g - 1 \<or> col = 0 \<or> col = cols g - 1 then 5
      else 8)"
  using assms unfolding get_neighbours_index_unfold is_valid_index_def
  by (auto split: if_splits)

text \<open>
  Claim C7, as the specification states it: every in-bounds cell has 3, 5 or 8 neighbours.
  The only cell of the 1-by-1 grid has none.
\<close>

theorem neighbours_1_by_1_counterexample:
  "fully_constructed grid_1_by_1 \<and> is_valid_index grid_1_by_1 0 0
   \<and> get_neighbours_index grid_1_by_1 0 0 = []
   \<and> length (get_neighbours_index grid_1_by_1 0 0) \<notin> {3, 5, 8}"
  by (simp add: fully_constructed_def array_shape_ok_def get_neighbours_index_unfold
      is_valid_index_def grid_1_by_1_def)

text \<open>
  Claim C7, amended: for every grid and every cell, \<open>get_neighbours_index(r, c)\<close> lists,
  without repetition, exactly the in-bounds cells at Chebyshev distance 1 from \<open>(r, c)\<close>.
  When the grid has at least two rows and two columns, an in-bounds corner cell has 3
  neighbours, any other in-bounds cell of the border has 5, and an interior cell has 8.
\<close>

theorem get_neighbours_index_chebyshev:
  "set (get_neighbours_index g row col) =
     {p. is_valid_index g (fst p) (snd p) \<and> chebyshev p (row, col) = 1}
   \<and> distinct (get_neighbours_index g row col)
   \<and> (2 \<le> rows g \<and> 2 \<le> cols g \<and> is_valid_index g row col \<longrightarrow>
        length (get_neighbours_index g row col) =
          (if (row = 0 \<or> row = rows g - 1) \<and> (col = 0 \<or> col = cols g - 1) then 3
           else if row = 0 \<or> row = rows g - 1 \<or> col = 0 \<or> col = cols g - 1 then 5
           else 8))"
  using set_get_neighbours_index distinct_get_neighbours_index length_get_neighbours_index
  by blast

theorem get_neighbours_index_chebyshev_witness:
  "2 \<le> rows grid_ab_cd \<and> 2 \<le> cols grid_ab_cd \<and> is_valid_index grid_ab_cd 0 0
   \<and> length (get_neighbours_index grid_ab_cd 0 0) = 3
   \<and> set (get_neighbours_index grid_ab_cd 0 0) =
       {p. is_valid_index grid_ab_cd (fst p) (snd p) \<and> chebyshev p (0, 0) = 1}"
proof -
  have h: "2 \<le> rows grid_ab_cd \<and> 2 \<le> cols grid_ab_cd \<and> is_valid_index grid_ab_cd 0 0"
    by (simp add: grid_ab_cd_def is_valid_index_def)
  with get_neighbours_index_chebyshev [of grid_ab_cd 0 0] show ?thesis
    by simp
qed

subsection \<open>Trigrams of a cell\<close>

lemma mapM_result_Inr:
  "mapM_result f xs = Inr ys \<Longrightarrow> list_all2 (\<lambda>x y. f x = Inr y) xs ys"
  by (induction xs arbitrary: ys) (auto split: sum.splits)

lemma mapM_result_mem:
  "mapM_result f xs = Inr ys \<Longrightarrow> y \<in> set ys \<Longrightarrow> \<exists>x \<in> set xs. f x = Inr y"
  by (induction xs arbitrary: ys) (auto split: sum.splits)

lemma mapM_result_total:
  "(\<And>x. x \<in> set xs \<Longrightarrow> \<exists>y. f x = Inr y) \<Longrightarrow> \<exists>ys. mapM_result f xs = Inr ys"
  by (induction xs) (fastforce split: sum.splits)+

lemma get_element_cell:
  assumes "get_element g row col = Inr a"
  shows "\<exists>r \<in> set (grid g). a \<in> set r"
proof -
  from assms obtain r c where "np_index (length (grid g)) row = Inr r"
    "np_index (length (grid g ! r)) col = Inr c" "a = grid g ! r ! c"
    by (auto simp: get_element_def split: sum.splits)
  then have "r < length (grid g)" "c < length (grid g ! r)" "a = grid g ! r ! c"
    by (auto simp: np_index_def split: if_splits)
  then show ?thesis by (metis nth_mem)
qed

lemma get_element_single:
  assumes "fully_constructed g" "get_element g row col = Inr a"
  shows "\<exists>x. a = [x]"
proof -
  from get_element_cell [OF assms(2)] obtain r where "r \<in> set (grid g)" "a \<in> set r" by blast
  with assms(1) have "length a = 1"
    by (auto simp: fully_constructed_def list_all_iff)
  then show ?thesis by (cases a) auto
qed

lemma get_two_neighbours_paths:
  assumes "get_two_neighbours g row col = Inr T" "t \<in> T"
  shows "\<exists>n1 n2 a b d.
     n1 \<in> set (get_neighbours_index g row col)
     \<and> n2 \<in> set (get_neighbours_index g (fst n1) (snd n1))
     \<and> n2 \<noteq> (row, col)
     \<and> get_element g row col = Inr a
     \<and> get_element g (fst n1) (snd n1) = Inr b
     \<and> get_element g (fst n2) (snd n2) = Inr d
     \<and> t = a @ b @ d"
proof -
  from assms obtain tss where
    tss: "mapM_result (threegrams_of_key g row col) (neighbour_dict g row col) = Inr tss"
    and t: "t \<in> set (concat tss)"
    by (auto simp: get_two_neighbours_def split: sum.splits)
  from t obtain ts where ts: "ts \<in> set tss" "t \<in> set ts" by auto
  from mapM_result_mem [OF tss ts(1)] obtain entry where
    entry: "entry \<in> set (neighbour_dict g row col)" "threegrams_of_key g row col entry = Inr ts"
    by blast
  from entry(1) obtain n1 where n1: "n1 \<in> set (get_neighbours_index g row col)"
    "entry = (n1, filter (\<lambda>nn. nn \<noteq> (row, col)) (get_neighbours_index g (fst n1) (snd n1)))"
    by (auto simp: neighbour_dict_def)
  from entry(2) obtain a b where a: "get_element g row col = Inr a"
    and b: "get_element g (fst n1) (snd n1) = Inr b"
    and m: "mapM_result (\<lambda>item. case get_element g (fst item) (snd item) of
                         Inl e \<Rightarrow> Inl e | Inr d \<Rightarrow> Inr ((a @ b) @ d)) (snd entry) = Inr ts"
    unfolding threegrams_of_key_def n1(2) by (auto split: sum.splits)
  from mapM_result_mem [OF m ts(2)] obtain n2 where
    n2: "n2 \<in> set (snd entry)"
    "(case get_element g (fst n2) (snd n2) of Inl e \<Rightarrow> Inl e | Inr d \<Rightarrow> Inr ((a @ b) @ d)) = Inr t"
    by blast
  from n2(2) obtain d where d: "get_element g (fst n2) (snd n2) = Inr d" "t = a @ b @ d"
    by (auto split: sum.splits)
  from n2(1) n1(2) have "n2 \<in> set (get_neighbours_index g (fst n1) (snd n1))" "n2 \<noteq> (row, col)"
    by auto
  with n1(1) a b d show ?thesis by blast
qed

text \<open>
  Claim C8. On a fully constructed grid, every trigram that \<open>get_two_neighbours(r, c)\<close>
  returns for an in-bounds cell \<open>(r, c)\<close> is made of the letter at \<open>(r, c)\<close>, then the letter
  of a neighbour \<open>n1\<close> of \<open>(r, c)\<close>, then the letter of a neighbour \<open>n2\<close> of \<open>n1\<close>, where
  \<open>n2\<close> is not \<open>(r, c)\<close>.
\<close>

theorem get_two_neighbours_trigram:
  assumes "fully_constructed g" "is_valid_index g row col"
    and "get_two_neighbours g row col = Inr T" "t \<in> T"
  shows "\<exists>n1 n2 x y z.
     n1 \<in> set (get_neighbours_index g row col)
     \<and> n2 \<in> set (get_neighbours_index g (fst n1) (snd n1))
     \<and> n2 \<noteq> (row, col)
     \<and> get_element g row col = Inr [x]
     \<and> get_element g (fst n1) (snd n1) = Inr [y]
     \<and> get_element g (fst n2) (snd n2) = Inr [z]
     \<and> t = [x, y, z]"
proof -
  from get_two_neighbours_paths [OF assms(3,4)] obtain n1 n2 a b d where
    p: "n1 \<in> set (get_neighbours_index g row col)"
       "n2 \<in> set (get_neighbours_index g (fst n1) (snd n1))" "n2 \<noteq> (row, col)"
    and e: "get_element g row col = Inr a" "get_element g (fst n1) (snd n1) = Inr b"
       "get_element g (fst n2) (snd n2) = Inr d"
    and t: "t = a @ b @ d"
    by blast
  from e assms(1) obtain x y z where "a = [x]" "b = [y]" "d = [z]"
    by (meson get_element_single)
  with p e t have "n1 \<in> set (get_neighbours_index g row col)
     \<and> n2 \<in> set (get_neighbours_index g (fst n1) (snd n1))
     \<and> n2 \<noteq> (row, col)
     \<and> get_element g row col = Inr [x]
     \<and> get_element g (fst n1) (snd n1) = Inr [y]
     \<and> get_element g (fst n2) (snd n2) = Inr [z]
     \<and> t = [x, y, z]" by simp
  then show ?thesis by blast
qed

lemma grid_ab_cd_two: "get_two_neighbours grid_ab_cd 0 0 = Inr (set [''abc'', ''abd'', ''acb'', ''acd'', ''adb'', ''adc''])"
  by code_simp

theorem get_two_neighbours_trigram_witness:
  "fully_constructed grid_ab_cd \<and> is_valid_index grid_ab_cd 0 0
   \<and> get_two_neighbours grid_ab_cd 0 0 = Inr (set [''abc'', ''abd'', ''acb'', ''acd'', ''adb'', ''adc''])
   \<and> ''abd'' \<in> set [''abc'', ''abd'', ''acb'', ''acd'', ''adb'', ''adc'']
   \<and> (\<exists>n1 n2 x y z.
     n1 \<in> set (get_neighbours_index grid_ab_cd 0 0)
     \<and> n2 \<in> set (get_neighbours_index grid_ab_cd (fst n1) (snd n1))
     \<and> n2 \<noteq> (0, 0)
     \<and> get_element grid_ab_cd 0 0 = Inr [x]
     \<and> get_element grid_ab_cd (fst n1) (snd n1) = Inr [y]
     \<and> get_element grid_ab_cd (fst n2) (snd n2) = Inr [z]
     \<and> ''abd'' = [x, y, z])"
proof -
  have v: "is_valid_index grid_ab_cd 0 0"
    by (simp add: is_valid_index_def grid_ab_cd_def)
  have m: "''abd'' \<in> set [''abc'', ''abd'', ''acb'', ''acd'', ''adb'', ''adc'']"
    by simp
  from get_two_neighbours_trigram [OF grid_ab_cd_full v grid_ab_cd_two m]
    grid_ab_cd_full v grid_ab_cd_two m
  show ?thesis by blast
qed

subsection \<open>When the trigram pass returns\<close>

lemma mapM_result_Inl:
  "mapM_result f xs = Inl e \<Longrightarrow> \<exists>x \<in> set xs. f x = Inl e"
  by (induction xs) (auto split: sum.splits)

lemma mapM_result_fails:
  "x \<in> set xs \<Longrightarrow> f x = Inl e \<Longrightarrow> \<exists>e'. mapM_result f xs = Inl e'"
  by (induction xs) (auto split: sum.splits)

lemma get_element_error: "get_element g row col = Inl e \<Longrightarrow> e = IndexError"
  by (auto simp: get_element_def np_index_def split: sum.splits if_splits)

lemma get_element_in_array:
  assumes "array_shape_ok g" "0 \<le> row" "row < cols g" "0 \<le> col" "col < cols g"
  shows "get_element g row col = Inr (grid g ! nat row ! nat col)"
proof -
  from assms have r: "np_index (length (grid g)) row = Inr (nat row)"
    by (simp add: np_index_def array_shape_ok_def)
  from assms have "nat row < length (grid g)" by (simp add: array_shape_ok_def)
  with assms(1) have "length (grid g ! nat row) = nat (cols g)"
    by (simp add: array_shape_ok_def list_all_length)
  with assms have "np_index (length (grid g ! nat row)) col = Inr (nat col)"
    by (simp add: np_index_def)
  with r show ?thesis by (simp add: get_element_def)
qed

lemma get_element_below_array:
  assumes "array_shape_ok g" "cols g \<le> row"
  shows "get_element g row col = Inl IndexError"
  using assms by (simp add: get_element_def np_index_def array_shape_ok_def)

lemma get_two_neighbours_error: "get_two_neighbours g row col = Inl e \<Longrightarrow> e = IndexError"
proof -
  assume "get_two_neighbours g row col = Inl e"
  then have "mapM_result (threegrams_of_key g row col) (neighbour_dict g row col) = Inl e"
    by (auto simp: get_two_neighbours_def split: sum.splits)
  then obtain entry where "threegrams_of_key g row col entry = Inl e"
    using mapM_result_Inl by blast
  then show "e = IndexError"
    by (auto simp: threegrams_of_key_def split: sum.splits
        dest!: get_element_error mapM_result_Inl)
qed

lemma get_all_threegrams_error: "get_all_threegrams g = Inl e \<Longrightarrow> e = IndexError"
  by (auto simp: get_all_threegrams_def split: sum.splits
      dest!: mapM_result_Inl get_two_neighbours_error)

lemma get_two_neighbours_total:
  assumes ok: "array_shape_ok g" and le: "rows g \<le> cols g" and v: "is_valid_index g row col"
  shows "\<exists>T. get_two_neighbours g row col = Inr T"
proof -
  have el: "\<exists>a. get_element g r c = Inr a" if "is_valid_index g r c" for r c
    using that get_element_in_array [OF ok, of r c] le
    by (auto simp: is_valid_index_def split: if_splits)
  have key: "\<exists>ts. threegrams_of_key g row col entry = Inr ts"
    if "entry \<in> set (neighbour_dict g row col)" for entry
  proof -
    from that obtain n1 where n1: "n1 \<in> set (get_neighbours_index g row col)"
      "entry = (n1, filter (\<lambda>nn. nn \<noteq> (row, col)) (get_neighbours_index g (fst n1) (snd n1)))"
      by (auto simp: neighbour_dict_def)
    from el [OF v] obtain a where a: "get_element g row col = Inr a" by blast
    from el [OF valid_neighbours [OF n1(1)]] obtain b
      where b: "get_element g (fst n1) (snd n1) = Inr b" by blast
    have item: "\<exists>y. (case get_element g (fst item) (snd item) of
                 Inl e \<Rightarrow> Inl e | Inr d \<Rightarrow> Inr ((a @ b) @ d)) = Inr y"
      if "item \<in> set (snd entry)" for item
    proof -
      from that n1(2) have "item \<in> set (get_neighbours_index g (fst n1) (snd n1))" by simp
      from el [OF valid_neighbours [OF this]] show ?thesis by auto
    qed
    have "\<exists>ts. mapM_result (\<lambda>item. case get_element g (fst item) (snd item) of
                 Inl e \<Rightarrow> Inl e | Inr d \<Rightarrow> Inr ((a @ b) @ d)) (snd entry) = Inr ts"
      by (rule mapM_result_total) (rule item)
    with a b n1(2) show ?thesis
      by (simp add: threegrams_of_key_def)
  qed
  have "\<exists>tss. mapM_result (threegrams_of_key g row col) (neighbour_dict g row col) = Inr tss"
    by (rule mapM_result_total) (rule key)
  then show ?thesis
    by (auto simp: get_two_neighbours_def)
qed

lemma get_all_threegrams_total:
  assumes ok: "array_shape_ok g" and le: "rows g \<le> cols g"
  shows "\<exists>T. get_all_threegrams g = Inr T"
proof -
  let ?cells = "[(row, col). row \<leftarrow> map int [0 ..< nat (rows g)],
                              col \<leftarrow> map int [0 ..< nat (cols g)]]"
  have cell: "\<exists>T. (\<lambda>(row, col). get_two_neighbours g row col) cell = Inr T"
    if "cell \<in> set ?cells" for cell
  proof -
    from that have "is_valid_index g (fst cell) (snd cell)"
      by (auto simp: is_valid_index_def)
    from get_two_neighbours_total [OF ok le this] show ?thesis
      by (simp add: case_prod_beta)
  qed
  have "\<exists>Ts. mapM_result (\<lambda>(row, col). get_two_neighbours g row col) ?cells = Inr Ts"
    by (rule mapM_result_total) (rule cell)
  then show ?thesis
    by (auto simp: get_all_threegrams_def)
qed

lemma cell_in_range:
  assumes "0 \<le> row" "row < rows g" "0 \<le> col" "col < cols g"
  shows "(row, col) \<in> set [(row, col). row \<leftarrow> map int [0 ..< nat (rows g)],
                                         col \<leftarrow> map int [0 ..< nat (cols g)]]"
proof -
  from assms have "nat row \<in> {0 ..< nat (rows g)}" "int (nat row) = row"
    "nat col \<in> {0 ..< nat (cols g)}" "int (nat col) = col"
    by simp_all
  then have "row \<in> int ` {0 ..< nat (rows g)}" "col \<in> int ` {0 ..< nat (cols g)}"
    by (metis imageI)+
  then show ?thesis by auto
qed

lemma get_two_neighbours_last_row_raises:
  assumes ok: "array_shape_ok g" and gt: "cols g < rows g" and pos: "0 < cols g"
  shows "get_two_neighbours g (cols g - 1) 0 = Inl IndexError"
proof -
  let ?r = "cols g - 1"
  let ?entry = "((cols g, 0::int),
     filter (\<lambda>nn. nn \<noteq> (?r, 0)) (get_neighbours_index g (fst (cols g, 0::int)) (snd (cols g, 0::int))))"
  have "is_valid_index g (cols g) 0" "chebyshev (cols g, 0) (?r, 0) = 1"
    using gt pos by (simp_all add: is_valid_index_def chebyshev_def)
  then have nb: "(cols g, 0) \<in> set (get_neighbours_index g ?r 0)"
    by (simp add: set_get_neighbours_index)
  have mem: "?entry \<in> set (neighbour_dict g ?r 0)"
    unfolding neighbour_dict_def set_map using nb by (rule imageI)
  have a: "get_element g ?r 0 = Inr (grid g ! nat ?r ! nat 0)"
    using pos by (intro get_element_in_array [OF ok]) simp_all
  have b: "get_element g (cols g) 0 = Inl IndexError"
    by (rule get_element_below_array [OF ok]) simp
  have fail: "threegrams_of_key g ?r 0 ?entry = Inl IndexError"
    unfolding threegrams_of_key_def fst_conv snd_conv a b by simp
  from mapM_result_fails [of _ _ "threegrams_of_key g ?r 0", OF mem fail] obtain e
    where "mapM_result (threegrams_of_key g ?r 0) (neighbour_dict g ?r 0) = Inl e" ..
  then have two: "get_two_neighbours g ?r 0 = Inl e"
    unfolding get_two_neighbours_def by simp
  from get_two_neighbours_error [OF two] two show ?thesis by simp
qed

lemma get_all_threegrams_raises:
  assumes ok: "array_shape_ok g" and gt: "cols g < rows g" and pos: "0 < cols g"
  shows "get_all_threegrams g = Inl IndexError"
proof -
  let ?cells = "[(row, col). row \<leftarrow> map int [0 ..< nat (rows g)],
                              col \<leftarrow> map int [0 ..< nat (cols g)]]"
  let ?body = "\<lambda>(row, col). get_two_neighbours g row col"
  have mem: "(cols g - 1, 0) \<in> set ?cells"
    using gt pos by (intro cell_in_range) simp_all
  have fail: "?body (cols g - 1, 0) = Inl IndexError"
    using get_two_neighbours_last_row_raises [OF ok gt pos] by simp
  from mapM_result_fails [of _ _ ?body, OF mem fail] obtain e where "mapM_result ?body ?cells = Inl e" ..
  then have all: "get_all_threegrams g = Inl e"
    unfolding get_all_threegrams_def by simp
  from get_all_threegrams_error [OF all] all show ?thesis by simp
qed

lemma get_all_threegrams_returns_iff:
  assumes "fully_constructed g"
  shows "(\<exists>T. get_all_threegrams g = Inr T) = (rows g \<le> cols g)"
proof (cases "rows g \<le> cols g")
  case True
  with assms get_all_threegrams_total show ?thesis
    by (simp add: fully_constructed_def)
next
  case False
  with assms have "get_all_threegrams g = Inl IndexError"
    by (intro get_all_threegrams_raises) (simp_all add: fully_constructed_def)
  with False show ?thesis by simp
qed

text \<open>
  Claim C2. Every stage is to complete without an error on every fully constructed grid,
  non-square grids included. The array has \<open>cols\<close> rows, while \<open>is_valid_index\<close> admits
  \<open>rows\<close> rows: on the fully constructed grid of \<open>WordGrid(3, 2)\<close>, \<open>get_all_threegrams()\<close>
  reads row 2 of an array with two rows and raises IndexError, and so does
  \<open>filter_wordlistfile\<close>.
\<close>

theorem get_all_threegrams_3_by_2_raises:
  "fully_constructed grid_3_by_2
   \<and> get_all_threegrams grid_3_by_2 = Inl IndexError
   \<and> filter_wordlistfile [''abcd''] grid_3_by_2 = Inl IndexError"
proof -
  have "get_all_threegrams grid_3_by_2 = Inl IndexError"
    by code_simp
  with grid_3_by_2_full show ?thesis
    by (simp add: filter_wordlistfile_def)
qed

subsection \<open>The case of the letters\<close>

lemma grid_AB_CD_built:
  "update_gridline_from_string \<lparr>grid = [[[], []], [[], []]], rows = 2, cols = 2\<rparr> 0 ''AB''
       = Inr ([], \<lparr>grid = [[''A'', ''B''], [[], []]], rows = 2, cols = 2\<rparr>)
   \<and> update_gridline_from_string \<lparr>grid = [[''A'', ''B''], [[], []]], rows = 2, cols = 2\<rparr> 1 ''CD''
       = Inr ([], grid_AB_CD)"
  by (simp add: update_gridline_from_string_def np_assign_row_def np_index_def grid_AB_CD_def)

lemma grid_AB_CD_full: "fully_constructed grid_AB_CD"
  by (simp add: fully_constructed_def array_shape_ok_def grid_AB_CD_def)

text \<open>
  Claim C4. Changing the case of a grid letter is not to change which words are accepted.
  The prompt of the program asks for the letters \<open>like 'abcd' or 'ABCD'\<close>, and the grid is
  printed in capitals; but \<open>get_element\<close> returns the letters as they were typed and the
  words are compared with them as they are. For the grid typed as \<open>AB\<close>, \<open>CD\<close> no word of
  the lower-case list \<open>abcd\<close>, \<open>dcba\<close>, \<open>bacd\<close> is found, while the same grid typed as
  \<open>ab\<close>, \<open>cd\<close> accepts all three.
\<close>

theorem filter_wordlistfile_capital_grid_finds_nothing:
  "fully_constructed grid_AB_CD
   \<and> filter_wordlistfile [''abcd\<newline>'', ''dcba\<newline>'', ''bacd\<newline>''] grid_AB_CD = Inr []
   \<and> filter_wordlistfile [''abcd\<newline>'', ''dcba\<newline>'', ''bacd\<newline>''] grid_ab_cd
       = Inr [''abcd'', ''dcba'', ''bacd'']"
proof -
  have "filter_wordlistfile [''abcd\<newline>'', ''dcba\<newline>'', ''bacd\<newline>''] grid_AB_CD = Inr []"
    by code_simp
  moreover have
    "filter_wordlistfile [''abcd\<newline>'', ''dcba\<newline>'', ''bacd\<newline>''] grid_ab_cd
       = Inr [''abcd'', ''dcba'', ''bacd'']"
    by code_simp
  ultimately show ?thesis using grid_AB_CD_full by simp
qed

end
